theory Spec2Isabelle
  imports Main "HOL-Library.Monad_Syntax"
begin

section \<open>JavaScript values held by the store\<close>

text \<open>
  The two views read Immutable.js collections out of the store, convert some of them to
  plain JavaScript data with \<^verbatim>\<open>toJS()\<close> and hand the pieces to child components.
  A value is a primitive, a plain array or object, or an Immutable List or Map.  Maps and
  objects are association lists read at their first binding.  Numbers are the integer-valued
  ones: the views compute only lengths and indices, every other number is passed through
  unchanged.
\<close>

datatype jsval =
    Undefined
  | Null
  | JBool bool
  | JNum int
  | JStr string
  | JArr "jsval list"
  | JObj "(string \<times> jsval) list"
  | ImmList "jsval list"
  | ImmMap "(string \<times> jsval) list"

type_synonym imap = "(string \<times> jsval) list"

text \<open>A key handed to \<^verbatim>\<open>get\<close> or \<^verbatim>\<open>getIn\<close>: a property name (none of the names the views
  use is an array index) or a list index.\<close>

datatype key = Name string | Index nat

text \<open>JavaScript truthiness, as used by \<^verbatim>\<open>?:\<close>, \<^verbatim>\<open>&&\<close> and \<^verbatim>\<open>!\<close>.\<close>

fun truthy :: "jsval \<Rightarrow> bool" where
  "truthy Undefined = False"
| "truthy Null = False"
| "truthy (JBool b) = b"
| "truthy (JNum n) = (n \<noteq> 0)"
| "truthy (JStr s) = (s \<noteq> [])"
| "truthy (JArr xs) = True"
| "truthy (JObj m) = True"
| "truthy (ImmList xs) = True"
| "truthy (ImmMap m) = True"

text \<open>A slot is absent when it holds \<^verbatim>\<open>undefined\<close> (also the result of reading a missing key)
  or \<^verbatim>\<open>null\<close>.\<close>

fun absent :: "jsval \<Rightarrow> bool" where
  "absent Undefined = True"
| "absent Null = True"
| "absent v = False"

fun is_imm :: "jsval \<Rightarrow> bool" where
  "is_imm (ImmList xs) = True"
| "is_imm (ImmMap m) = True"
| "is_imm v = False"

text \<open>\<^verbatim>\<open>props.blog.get(k)\<close> on a prop that is an Immutable Map: the value, or \<^verbatim>\<open>undefined\<close>.\<close>

definition mget :: "imap \<Rightarrow> string \<Rightarrow> jsval" where
  "mget m k = (case map_of m k of None \<Rightarrow> Undefined | Some v \<Rightarrow> v)"

text \<open>The entry an Immutable collection stores under a key; \<open>None\<close> is Immutable's
  \<^verbatim>\<open>NOT_SET\<close>.\<close>

fun imm_find :: "jsval \<Rightarrow> key \<Rightarrow> jsval option" where
  "imm_find (ImmMap m) (Name k) = map_of m k"
| "imm_find (ImmList xs) (Index i) = (if i < length xs then Some (xs ! i) else None)"
| "imm_find v k = None"

text \<open>
  From here on a result of type \<open>'a option\<close> is the result of an expression that can throw:
  \<open>None\<close> is a thrown \<^verbatim>\<open>TypeError\<close> (the only exception these views can raise: calling a
  method on a value that has none, or reading a property of \<^verbatim>\<open>undefined\<close> or \<^verbatim>\<open>null\<close>).
\<close>

text \<open>The method call \<^verbatim>\<open>v.get(k)\<close>.\<close>

definition call_get :: "jsval \<Rightarrow> key \<Rightarrow> jsval option" where
  "call_get v k =
     (if is_imm v then Some (case imm_find v k of None \<Rightarrow> Undefined | Some x \<Rightarrow> x) else None)"

text \<open>
  The loop of \<^verbatim>\<open>getIn\<close> in Immutable 3:
  \<^verbatim>\<open>nested = nested && nested.get ? nested.get(key, NOT_SET) : NOT_SET\<close>, leaving with the
  default at the first \<^verbatim>\<open>NOT_SET\<close>.  The outer \<open>None\<close> is a throw (a plain object whose
  own \<^verbatim>\<open>get\<close> entry is truthy but not callable), the inner \<open>None\<close> is \<^verbatim>\<open>NOT_SET\<close>.
  (Immutable 4 also walks into plain arrays and objects, here and in \<^verbatim>\<open>toJS\<close>; the two
  agree on collections that are Immutable throughout, which is all the statements below
  are about.)
\<close>

fun getIn_step :: "jsval \<Rightarrow> key \<Rightarrow> jsval option option" where
  "getIn_step (ImmMap m) k = Some (imm_find (ImmMap m) k)"
| "getIn_step (ImmList xs) k = Some (imm_find (ImmList xs) k)"
| "getIn_step (JObj m) k = (if truthy (mget m ''get'') then None else Some None)"
| "getIn_step v k = Some None"

fun getIn_loop :: "jsval \<Rightarrow> key list \<Rightarrow> jsval option option" where
  "getIn_loop nested [] = Some (Some nested)"
| "getIn_loop nested (k # ks) =
     (case getIn_step nested k of
        None \<Rightarrow> None
      | Some None \<Rightarrow> Some None
      | Some (Some v) \<Rightarrow> getIn_loop v ks)"

text \<open>The method call \<^verbatim>\<open>v.getIn(path, notSetValue)\<close>.\<close>

definition call_getIn :: "jsval \<Rightarrow> key list \<Rightarrow> jsval \<Rightarrow> jsval option" where
  "call_getIn v path d =
     (if is_imm v
      then (case getIn_loop v path of
              None \<Rightarrow> None
            | Some None \<Rightarrow> Some d
            | Some (Some x) \<Rightarrow> Some x)
      else None)"

text \<open>\<^verbatim>\<open>toJS()\<close>: an Immutable collection becomes a plain array or object, and so does every
  Immutable collection stored in it; any other entry is kept as it is.\<close>

fun toJS :: "jsval \<Rightarrow> jsval" where
  "toJS (ImmList xs) = JArr (map toJS xs)"
| "toJS (ImmMap m) = JObj (map (\<lambda>(k, v). (k, toJS v)) m)"
| "toJS v = v"

text \<open>The method call \<^verbatim>\<open>v.toJS()\<close>.\<close>

definition call_toJS :: "jsval \<Rightarrow> jsval option" where
  "call_toJS v = (if is_imm v then Some (toJS v) else None)"

text \<open>Reading a data property \<^verbatim>\<open>v.name\<close> (a name that is not an inherited method).\<close>

fun prop_read :: "jsval \<Rightarrow> string \<Rightarrow> jsval option" where
  "prop_read Undefined k = None"
| "prop_read Null k = None"
| "prop_read (JObj m) k = Some (mget m k)"
| "prop_read (JArr xs) k = Some (if k = ''length'' then JNum (int (length xs)) else Undefined)"
| "prop_read (JStr s) k = Some (if k = ''length'' then JNum (int (length s)) else Undefined)"
| "prop_read (ImmList xs) k = Some (if k = ''size'' then JNum (int (length xs)) else Undefined)"
| "prop_read (ImmMap m) k = Some (if k = ''size'' then JNum (int (length m)) else Undefined)"
| "prop_read v k = Some Undefined"

text \<open>
  What the browser supplies at render time.  \<open>moment_ll v\<close> is \<^verbatim>\<open>moment(v).format('ll')\<close>
  under the locale, time zone and clock of the moment of rendering.  \<open>to_string_other\<close> is
  the string conversion of a template literal for every operand that is not an array length;
  it can throw.
\<close>

record env =
  moment_ll :: "jsval \<Rightarrow> string"
  to_string_other :: "jsval \<Rightarrow> string option"

function show_nat :: "nat \<Rightarrow> string" where
  "show_nat n =
     (if n < 10 then [''0123456789'' ! n]
      else show_nat (n div 10) @ [''0123456789'' ! (n mod 10)])"
  by pat_completeness auto
termination
  by (relation "measure (\<lambda>n. n)") auto

declare show_nat.simps [simp del]

text \<open>The string conversion inside a template literal \<^verbatim>\<open>`...${v}...`\<close>.\<close>

definition to_string :: "env \<Rightarrow> jsval \<Rightarrow> string option" where
  "to_string env v =
     (case v of
        JNum n \<Rightarrow> if 0 \<le> n \<and> n < 2 ^ 32 then Some (show_nat (nat n)) else to_string_other env v
      | _ \<Rightarrow> to_string_other env v)"

section \<open>Rendered output and dispatched actions\<close>

text \<open>
  A render returns a tree of elements.  A prop of an element is a value or a reference to one
  of the component's own handlers (the handler reads \<^verbatim>\<open>this.props\<close> when it is called, not
  when it is rendered).  A child is an element, the value of an expression in braces (text,
  or the \<^verbatim>\<open>false\<close> left by a failed \<^verbatim>\<open>&&\<close>), or the collection returned by \<^verbatim>\<open>map\<close>.
\<close>

datatype handler = Ref_handlePostComment | Ref_handleSignIn

datatype attr = AVal jsval | AHandler handler

datatype node =
    Element string "(string \<times> attr) list" "node list"
  | Expr jsval
  | NodeArr "node list"
  | NodeMap "(string \<times> node) list"

text \<open>\<^verbatim>\<open>coll.map(f)\<close>: the callback receives the entry and its index (array, List) or its
  key (Map); a value without a \<^verbatim>\<open>map\<close> method throws.\<close>

fun map_indexed :: "(jsval \<Rightarrow> jsval \<Rightarrow> node option) \<Rightarrow> nat \<Rightarrow> jsval list \<Rightarrow> node list option" where
  "map_indexed f i [] = Some []"
| "map_indexed f i (x # xs) =
     do { y \<leftarrow> f x (JNum (int i)); ys \<leftarrow> map_indexed f (Suc i) xs; Some (y # ys) }"

fun map_keyed :: "(jsval \<Rightarrow> jsval \<Rightarrow> node option) \<Rightarrow> (string \<times> jsval) list \<Rightarrow> (string \<times> node) list option" where
  "map_keyed f [] = Some []"
| "map_keyed f ((k, v) # kvs) =
     do { y \<leftarrow> f v (JStr k); ys \<leftarrow> map_keyed f kvs; Some ((k, y) # ys) }"

fun call_map :: "jsval \<Rightarrow> (jsval \<Rightarrow> jsval \<Rightarrow> node option) \<Rightarrow> node option" where
  "call_map (JArr xs) f = map_option NodeArr (map_indexed f 0 xs)"
| "call_map (ImmList xs) f = map_option NodeArr (map_indexed f 0 xs)"
| "call_map (ImmMap m) f = map_option NodeMap (map_keyed f m)"
| "call_map v f = None"

text \<open>A call of one of the action props bound by \<^verbatim>\<open>connect(selector, actions)\<close> dispatches
  one action; \<^verbatim>\<open>e.preventDefault()\<close> is the only other effect a handler has.\<close>

datatype effect =
    Call_getPostDetail jsval
  | Call_getPostCommentList jsval
  | Call_createPostComment jsval
  | Call_show jsval
  | Call_getDonorListPage
  | PreventDefault

text \<open>Modelled from the spec: the request-status constants \<^verbatim>\<open>API_PENDING\<close>, \<^verbatim>\<open>API_SUCCESS\<close> and
  \<^verbatim>\<open>API_FAIL\<close> are imported from \<^verbatim>\<open>store/api/request\<close>, which is not among the sources; the
  spec gives RequestStatus as an enum of three values, so they are three different
  primitives (compared with \<^verbatim>\<open>===\<close>).  Nothing below uses more than that.\<close>

definition API_PENDING :: jsval where
  "API_PENDING = JStr ''API_PENDING''"

definition API_SUCCESS :: jsval where
  "API_SUCCESS = JStr ''API_SUCCESS''"

definition API_FAIL :: jsval where
  "API_FAIL = JStr ''API_FAIL''"

section \<open>The detail view: PostDetail\<close>

text \<open>The props the component reads: the two store slices chosen by the selector (both
  Immutable Maps, as its propTypes require) and the route parameter \<^verbatim>\<open>match.params.id\<close>.\<close>

record PostDetail_props =
  auth :: imap
  blog :: imap
  match_params_id :: string

definition PostDetail_breadcrumbPath :: "PostDetail_props \<Rightarrow> jsval option" where
  "PostDetail_breadcrumbPath p =
     (let postDetail = mget (blog p) ''postDetail'' in
      do {
        t \<leftarrow> (if truthy postDetail then call_get postDetail (Name ''title'') else Some (JStr ''''));
        Some (JArr [JObj [(''route'', JStr ''/''), (''text'', JStr ''Home'')],
                    JObj [(''route'', JStr ''/blog''), (''text'', JStr ''Posts'')],
                    JObj [(''text'', t)]])
      })"

definition getDetail :: "string \<Rightarrow> effect list" where
  "getDetail i =
     [Call_getPostDetail (JObj [(''id'', JStr i)]),
      Call_getPostCommentList (JObj [(''id'', JStr i)])]"

definition PostDetail_componentWillMount :: "PostDetail_props \<Rightarrow> effect list" where
  "PostDetail_componentWillMount p = getDetail (match_params_id p)"

definition componentWillReceiveProps :: "PostDetail_props \<Rightarrow> PostDetail_props \<Rightarrow> effect list" where
  "componentWillReceiveProps p nextProps =
     (if match_params_id p \<noteq> match_params_id nextProps
      then getDetail (match_params_id nextProps)
      else [])"

definition handlePostComment :: "PostDetail_props \<Rightarrow> jsval \<Rightarrow> effect list" where
  "handlePostComment p data =
     [Call_createPostComment (JObj [(''id'', JStr (match_params_id p)), (''data'', data)])]"



text \<open>The callback of \<^verbatim>\<open>comments.map\<close> in \<^verbatim>\<open>renderDetail\<close>.\<close>

definition comment_entry :: "env \<Rightarrow> jsval \<Rightarrow> jsval \<Rightarrow> node option" where
  "comment_entry env comment index =
     do {
       content \<leftarrow> prop_read comment ''content'';
       created_at \<leftarrow> prop_read comment ''created_at'';
       user \<leftarrow> prop_read comment ''user'';
       full_name \<leftarrow> prop_read user ''full_name'';
       Some (Element ''div'' [(''className'', AVal (JStr ''mb-4'')), (''key'', AVal index)]
         [Element ''div'' [(''className'', AVal (JStr ''mb-3''))] [Expr content],
          Element ''Row'' []
            [Element ''Col'' [(''xs'', AVal (JNum 6)), (''className'', AVal (JStr ''mb-2''))]
               [Expr (JStr (moment_ll env created_at))],
             Element ''Col'' [(''xs'', AVal (JNum 6)), (''className'', AVal (JStr ''text-right mb-2''))]
               [Expr full_name]]])
     }"

text \<open>\<^verbatim>\<open>comments && !!comments.length && comments.map(...)\<close>.\<close>

definition comment_entries :: "env \<Rightarrow> jsval \<Rightarrow> node option" where
  "comment_entries env comments =
     (if \<not> truthy comments then Some (Expr comments)
      else do {
        len \<leftarrow> prop_read comments ''length'';
        if \<not> truthy len then Some (Expr (JBool False))
        else call_map comments (comment_entry env)
      })"

text \<open>\<^verbatim>\<open>user ? <CommentForm .../> : <Alert ...>...</Alert>\<close>.\<close>

definition comment_gate :: "jsval \<Rightarrow> node" where
  "comment_gate user =
     (if truthy user
      then Element ''CommentForm''
             [(''onSubmit'', AHandler Ref_handlePostComment), (''user'', AVal user)] []
      else Element ''Alert'' [(''color'', AVal (JStr ''dark''))]
             [Expr (JStr ''Please ''),
              Element ''Link''
                [(''to'', AVal (JStr ''/signin'')), (''className'', AVal (JStr ''alert-link'')),
                 (''onClick'', AHandler Ref_handleSignIn)]
                [Expr (JStr ''sign in'')],
              Expr (JStr '' to leave comment'')])"

text \<open>The callback of \<^verbatim>\<open>similarPosts.map\<close>: \<^verbatim>\<open>post => <PostItem key={post.pk} post={post} />\<close>.\<close>

definition similar_item :: "jsval \<Rightarrow> jsval \<Rightarrow> node option" where
  "similar_item post index =
     do {
       pk \<leftarrow> prop_read post ''pk'';
       Some (Element ''PostItem'' [(''key'', AVal pk), (''post'', AVal post)] [])
     }"

definition renderDetail :: "env \<Rightarrow> PostDetail_props \<Rightarrow> node option" where
  "renderDetail env p =
     do {
       let postDetail = mget (blog p) ''postDetail'';
       comments \<leftarrow> call_toJS (mget (blog p) ''commentList'');
       similarPosts \<leftarrow> call_get postDetail (Name ''similar_posts'');
       post \<leftarrow> call_toJS postDetail;
       let user = mget (auth p) ''currentUser'';
       title \<leftarrow> prop_read post ''title'';
       featured_image \<leftarrow> prop_read post ''featured_image'';
       content \<leftarrow> prop_read post ''content'';
       n \<leftarrow> (if truthy comments then prop_read comments ''length'' else Some (JNum 0));
       count \<leftarrow> to_string env n;
       entries \<leftarrow> comment_entries env comments;
       similar \<leftarrow> call_map similarPosts similar_item;
       Some (Element ''div'' [(''className'', AVal (JStr ''page-content''))]
         [Element ''Section'' [(''title'', AVal title)]
            [Element ''p'' []
               [Element ''img''
                  [(''src'', AVal featured_image), (''alt'', AVal title),
                   (''className'', AVal (JStr ''w-100''))] []],
             Element ''div''
               [(''className'', AVal (JStr ''my-5'')),
                (''dangerouslySetInnerHTML'', AVal (JObj [(''__html'', content)]))] []],
          Element ''Section'' [(''title'', AVal (JStr (''Comments ('' @ count @ '')'')))]
            [entries, comment_gate user],
          Element ''Section'' [(''title'', AVal (JStr ''Similar Posts''))]
            [Element ''Row'' [(''className'', AVal (JStr ''mb-5''))] [similar]]])
     }"

definition PostDetail_render :: "env \<Rightarrow> PostDetail_props \<Rightarrow> node option" where
  "PostDetail_render env p =
     do {
       let postDetailStatus = mget (blog p) ''postDetailStatus'';
       crumbs \<leftarrow> PostDetail_breadcrumbPath p;
       let pending = (if postDetailStatus = API_PENDING then Element ''Spinner'' [] []
                      else Expr (JBool False));
       let failed = (if postDetailStatus = API_FAIL
                     then Element ''SectionTitle'' []
                            [Element ''center'' [] [Expr (JStr ''Post not found'')]]
                     else Expr (JBool False));
       detail \<leftarrow> (if postDetailStatus = API_SUCCESS then renderDetail env p
                  else Some (Expr (JBool False)));
       Some (Element ''FrontContainerLayout''
               [(''breadcrumbPath'', AVal crumbs), (''subscribe'', AVal (JBool True))]
               [pending, failed, detail])
     }"

section \<open>The listing view: Donors\<close>

record Donors_props =
  donors :: imap

definition Donors_breadcrumbPath :: jsval where
  "Donors_breadcrumbPath =
     JArr [JObj [(''route'', JStr ''/''), (''text'', JStr ''Home'')],
           JObj [(''text'', JStr ''Donors'')]]"

definition Donors_componentWillMount :: "Donors_props \<Rightarrow> effect list" where
  "Donors_componentWillMount p =
     (if \<not> truthy (mget (donors p) ''donorListPageLoaded'') then [Call_getDonorListPage] else [])"

text \<open>The callback of \<^verbatim>\<open>donorListPage.map\<close>.\<close>

definition donor_card :: "jsval \<Rightarrow> jsval \<Rightarrow> node option" where
  "donor_card donor index =
     do {
       pk \<leftarrow> call_get donor (Name ''pk'');
       image \<leftarrow> call_getIn donor [Name ''media'', Index 0, Name ''url''] (JStr '''');
       title \<leftarrow> call_get donor (Name ''title'');
       description \<leftarrow> call_get donor (Name ''description'');
       Some (Element ''DonorCard''
               [(''key'', AVal pk), (''id'', AVal pk), (''image'', AVal image),
                (''title'', AVal title), (''description'', AVal description)] [])
     }"

definition Donors_render :: "Donors_props \<Rightarrow> node option" where
  "Donors_render p =
     do {
       let donorListPage = mget (donors p) ''donorListPage'';
       cards \<leftarrow> call_map donorListPage donor_card;
       Some (Element ''FrontContainerLayout''
               [(''breadcrumbPath'', AVal Donors_breadcrumbPath), (''title'', AVal (JStr ''Donors'')),
                (''subscribe'', AVal (JBool True))]
               [Element ''Row'' [] [cards]])
     }"

section \<open>Observing the output\<close>

text \<open>The names of the elements of a tree (components and tags), the root first.\<close>

fun element_names :: "node \<Rightarrow> string list" where
  "element_names (Element name attrs children) = name # concat (map element_names children)"
| "element_names (Expr v) = []"
| "element_names (NodeArr ns) = concat (map element_names ns)"
| "element_names (NodeMap kns) = concat (map (\<lambda>(k, n). element_names n) kns)"

text \<open>The handlers a tree attaches: the element, the prop and the handler referenced.\<close>

fun handlers_of :: "node \<Rightarrow> (string \<times> string \<times> handler) list" where
  "handlers_of (Element name attrs children) =
     [(name, a, h). (a, AHandler h) \<leftarrow> attrs] @ concat (map handlers_of children)"
| "handlers_of (Expr v) = []"
| "handlers_of (NodeArr ns) = concat (map handlers_of ns)"
| "handlers_of (NodeMap kns) = concat (map (\<lambda>(k, n). handlers_of n) kns)"

fun children_of :: "node \<Rightarrow> node list" where
  "children_of (Element name attrs children) = children"
| "children_of n = []"

text \<open>The children of the layout that are not the \<^verbatim>\<open>false\<close> of a branch not taken.\<close>

definition rendered_branches :: "node \<Rightarrow> node list" where
  "rendered_branches out = filter (\<lambda>c. c \<noteq> Expr (JBool False)) (children_of out)"

text \<open>A slot holding an entity of the data model: an Immutable Map.\<close>

fun is_entity :: "jsval \<Rightarrow> bool" where
  "is_entity (ImmMap m) = True"
| "is_entity v = False"

section \<open>Well-formed store states\<close>

text \<open>
  The data model of the store: the detail is an entity whose \<^verbatim>\<open>similar_posts\<close> is a List of
  entities; the comment list is a List (of a length an array can have) of comments, each an
  entity with a \<^verbatim>\<open>user\<close> entity; the media of a list item are absent or a List of
  entities.  The views themselves check none of this.
\<close>

fun wf_similar :: "jsval \<Rightarrow> bool" where
  "wf_similar (ImmList xs) = list_all is_entity xs"
| "wf_similar v = False"

fun wf_detail :: "jsval \<Rightarrow> bool" where
  "wf_detail (ImmMap m) = wf_similar (mget m ''similar_posts'')"
| "wf_detail v = False"

fun wf_comment :: "jsval \<Rightarrow> bool" where
  "wf_comment (ImmMap m) = is_entity (mget m ''user'')"
| "wf_comment v = False"

fun wf_comments :: "jsval \<Rightarrow> bool" where
  "wf_comments (ImmList cs) = (list_all wf_comment cs \<and> length cs < 2 ^ 32)"
| "wf_comments v = False"

fun media_typed :: "jsval \<Rightarrow> bool" where
  "media_typed (ImmList xs) = list_all is_entity xs"
| "media_typed v = absent v"

section \<open>The card a list item is specified to get\<close>

text \<open>What the specification says the listing view passes for an item: its id, title and
  description as they are, and as image the URL of its first media entry, with the empty
  string when there is none.\<close>

definition entity_field :: "jsval \<Rightarrow> string \<Rightarrow> jsval" where
  "entity_field item k = (case item of ImmMap m \<Rightarrow> mget m k | _ \<Rightarrow> Undefined)"

definition spec_first_url :: "jsval \<Rightarrow> jsval" where
  "spec_first_url media =
     (case media of
        ImmList (first # rest) \<Rightarrow>
          (case imm_find first (Name ''url'') of None \<Rightarrow> JStr '''' | Some u \<Rightarrow> u)
      | _ \<Rightarrow> JStr '''')"

definition spec_donor_card :: "jsval \<Rightarrow> node" where
  "spec_donor_card item =
     Element ''DonorCard''
       [(''key'', AVal (entity_field item ''pk'')), (''id'', AVal (entity_field item ''pk'')),
        (''image'', AVal (if absent (entity_field item ''media'') then JStr ''''
                          else spec_first_url (entity_field item ''media''))),
        (''title'', AVal (entity_field item ''title'')),
        (''description'', AVal (entity_field item ''description''))] []"

section \<open>The detail content of a well-formed state\<close>

text \<open>
  What the detail view is to show for a loaded post, written directly over the store's
  entities: a section with the post's title, featured image and content; a section headed
  by the number of comments, with one entry per comment (content, formatted date, author
  name) in store order, followed by the comment form or the sign-in prompt; and a section
  with one item per similar post.  Fields are shown in their plain JavaScript form.  (The
  key of a similar item is \<^verbatim>\<open>undefined\<close>: the view reads \<^verbatim>\<open>post.pk\<close> as a property of an
  Immutable Map, which has none of that name.)
\<close>

fun list_items :: "jsval \<Rightarrow> jsval list" where
  "list_items (ImmList xs) = xs"
| "list_items v = []"

definition spec_comment_entry :: "env \<Rightarrow> nat \<Rightarrow> jsval \<Rightarrow> node" where
  "spec_comment_entry env i c =
     Element ''div'' [(''className'', AVal (JStr ''mb-4'')), (''key'', AVal (JNum (int i)))]
       [Element ''div'' [(''className'', AVal (JStr ''mb-3''))]
          [Expr (toJS (entity_field c ''content''))],
        Element ''Row'' []
          [Element ''Col'' [(''xs'', AVal (JNum 6)), (''className'', AVal (JStr ''mb-2''))]
             [Expr (JStr (moment_ll env (toJS (entity_field c ''created_at''))))],
           Element ''Col'' [(''xs'', AVal (JNum 6)), (''className'', AVal (JStr ''text-right mb-2''))]
             [Expr (toJS (entity_field (entity_field c ''user'') ''full_name''))]]]"

definition spec_similar_item :: "jsval \<Rightarrow> node" where
  "spec_similar_item s = Element ''PostItem'' [(''key'', AVal Undefined), (''post'', AVal s)] []"

definition spec_detail :: "env \<Rightarrow> jsval \<Rightarrow> jsval \<Rightarrow> jsval \<Rightarrow> node" where
  "spec_detail env detail comments user =
     Element ''div'' [(''className'', AVal (JStr ''page-content''))]
       [Element ''Section'' [(''title'', AVal (toJS (entity_field detail ''title'')))]
          [Element ''p'' []
             [Element ''img''
                [(''src'', AVal (toJS (entity_field detail ''featured_image''))),
                 (''alt'', AVal (toJS (entity_field detail ''title''))),
                 (''className'', AVal (JStr ''w-100''))] []],
           Element ''div''
             [(''className'', AVal (JStr ''my-5'')),
              (''dangerouslySetInnerHTML'',
               AVal (JObj [(''__html'', toJS (entity_field detail ''content''))]))] []],
        Element ''Section''
          [(''title'',
            AVal (JStr (''Comments ('' @ show_nat (length (list_items comments)) @ '')'')))]
          [if list_items comments = [] then Expr (JBool False)
           else NodeArr (map (\<lambda>(i, c). spec_comment_entry env i c)
                           (enumerate 0 (list_items comments))),
           comment_gate user],
        Element ''Section'' [(''title'', AVal (JStr ''Similar Posts''))]
          [Element ''Row'' [(''className'', AVal (JStr ''mb-5''))]
             [NodeArr (map spec_similar_item
                         (list_items (entity_field detail ''similar_posts'')))]]]"

section \<open>Sample store states\<close>

definition sample_env :: env where
  "sample_env = \<lparr>moment_ll = (\<lambda>v. ''Sep 4, 2018''), to_string_other = (\<lambda>v. None)\<rparr>"

text \<open>The same page opened in a browser further east, where the sample comment's instant
  falls on the next day.\<close>

definition sample_env_east :: env where
  "sample_env_east = \<lparr>moment_ll = (\<lambda>v. ''Sep 5, 2018''), to_string_other = (\<lambda>v. None)\<rparr>"

definition sample_detail :: jsval where
  "sample_detail =
     ImmMap [(''title'', JStr ''Hello''), (''featured_image'', JStr ''/img/a.png''),
             (''content'', JStr ''<p>Hi</p>''),
             (''similar_posts'', ImmList [ImmMap [(''pk'', JNum 2), (''title'', JStr ''Other'')]])]"

definition sample_comment :: jsval where
  "sample_comment =
     ImmMap [(''content'', JStr ''Nice''), (''created_at'', JStr ''2018-09-04''),
             (''user'', ImmMap [(''full_name'', JStr ''Ann Lee'')])]"

definition sample_user :: jsval where
  "sample_user = ImmMap [(''full_name'', JStr ''Ann Lee'')]"

definition sample_props :: "jsval \<Rightarrow> jsval \<Rightarrow> jsval \<Rightarrow> jsval \<Rightarrow> PostDetail_props" where
  "sample_props status detail comments user =
     \<lparr>auth = [(''currentUser'', user)],
      blog = [(''postDetailStatus'', status), (''postDetail'', detail), (''commentList'', comments)],
      match_params_id = ''7''\<rparr>"

definition sample_donors :: Donors_props where
  "sample_donors =
     \<lparr>donors =
        [(''donorListPageLoaded'', JBool True),
         (''donorListPage'',
          ImmList
            [ImmMap [(''pk'', JNum 1), (''title'', JStr ''Ann''), (''description'', JStr ''First'')],
             ImmMap [(''pk'', JNum 2), (''title'', JStr ''Bob''), (''description'', JStr ''Second''),
                     (''media'', ImmList [ImmMap [(''url'', JStr ''/m/2.png'')]])]])]\<rparr>"

section \<open>Basic facts\<close>

lemmas model_defs =
  mget_def call_get_def call_toJS_def call_getIn_def to_string_def
  API_PENDING_def API_SUCCESS_def API_FAIL_def
  PostDetail_breadcrumbPath_def getDetail_def comment_entry_def comment_entries_def
  comment_gate_def similar_item_def renderDetail_def PostDetail_render_def
  Donors_breadcrumbPath_def donor_card_def Donors_render_def rendered_branches_def
  entity_field_def spec_first_url_def spec_donor_card_def
  spec_comment_entry_def spec_similar_item_def spec_detail_def

lemmas sample_defs =
  sample_env_def sample_detail_def sample_comment_def sample_user_def sample_props_def
  sample_donors_def sample_env_east_def

lemma absent_not_truthy: "absent v \<Longrightarrow> \<not> truthy v"
  by (cases v) auto

lemma status_distinct:
  "API_PENDING \<noteq> API_FAIL" "API_PENDING \<noteq> API_SUCCESS" "API_FAIL \<noteq> API_SUCCESS"
  by (simp_all add: API_PENDING_def API_FAIL_def API_SUCCESS_def)

lemma call_map_absent: "absent v \<Longrightarrow> call_map v f = None"
  by (cases v) auto

lemma breadcrumbPath_typed:
  assumes "absent (mget (blog p) ''postDetail'') \<or> is_entity (mget (blog p) ''postDetail'')"
  shows "\<exists>crumbs. PostDetail_breadcrumbPath p = Some crumbs"
  using assms
  by (cases "mget (blog p) ''postDetail''") (auto simp: PostDetail_breadcrumbPath_def call_get_def)

lemma renderDetail_is_div:
  "renderDetail env p = Some d \<Longrightarrow>
     \<exists>cs. d = Element ''div'' [(''className'', AVal (JStr ''page-content''))] cs"
  by (auto simp: renderDetail_def Let_def bind_eq_Some_conv)

lemma PostDetail_render_success:
  assumes "mget (blog p) ''postDetailStatus'' = API_SUCCESS" and "PostDetail_render env p = Some out"
  obtains crumbs d where
    "PostDetail_breadcrumbPath p = Some crumbs"
    "renderDetail env p = Some d"
    "out = Element ''FrontContainerLayout''
             [(''breadcrumbPath'', AVal crumbs), (''subscribe'', AVal (JBool True))]
             [Expr (JBool False), Expr (JBool False), d]"
  using assms status_distinct
  by (auto simp: PostDetail_render_def Let_def bind_eq_Some_conv)

subsection \<open>What \<^verbatim>\<open>map\<close> callbacks put into the output\<close>









subsection \<open>The shape of the detail content\<close>

lemma renderDetail_shape:
  assumes "renderDetail env p = Some d"
  obtains comments n count main entries similarPosts similar where
    "call_toJS (mget (blog p) ''commentList'') = Some comments"
    "(if truthy comments then prop_read comments ''length'' else Some (JNum 0)) = Some n"
    "to_string env n = Some count"
    "comment_entries env comments = Some entries"
    "call_map similarPosts similar_item = Some similar"
    "element_names main = [''Section'', ''p'', ''img'', ''div'']"
    "handlers_of main = []"
    "d = Element ''div'' [(''className'', AVal (JStr ''page-content''))]
         [main,
          Element ''Section'' [(''title'', AVal (JStr (''Comments ('' @ count @ '')'')))]
            [entries, comment_gate (mget (auth p) ''currentUser'')],
          Element ''Section'' [(''title'', AVal (JStr ''Similar Posts''))]
            [Element ''Row'' [(''className'', AVal (JStr ''mb-5''))] [similar]]]"
proof -
  from assms obtain comments similarPosts title featured_image content n count entries similar
    where c: "call_toJS (mget (blog p) ''commentList'') = Some comments"
      and n: "(if truthy comments then prop_read comments ''length'' else Some (JNum 0)) = Some n"
      and t: "to_string env n = Some count"
      and e: "comment_entries env comments = Some entries"
      and s: "call_map similarPosts similar_item = Some similar"
      and d: "d = Element ''div'' [(''className'', AVal (JStr ''page-content''))]
         [Element ''Section'' [(''title'', AVal title)]
            [Element ''p'' []
               [Element ''img''
                  [(''src'', AVal featured_image), (''alt'', AVal title),
                   (''className'', AVal (JStr ''w-100''))] []],
             Element ''div''
               [(''className'', AVal (JStr ''my-5'')),
                (''dangerouslySetInnerHTML'', AVal (JObj [(''__html'', content)]))] []],
          Element ''Section'' [(''title'', AVal (JStr (''Comments ('' @ count @ '')'')))]
            [entries, comment_gate (mget (auth p) ''currentUser'')],
          Element ''Section'' [(''title'', AVal (JStr ''Similar Posts''))]
            [Element ''Row'' [(''className'', AVal (JStr ''mb-5''))] [similar]]]"
    unfolding renderDetail_def Let_def bind_eq_Some_conv by blast
  show thesis
    by (rule that [OF c n t e s _ _ d]) simp_all
qed

lemma to_string_zero: "to_string env (JNum 0) = Some ''0''"
  by (simp add: to_string_def show_nat.simps)

subsection \<open>Well-formed states render\<close>

lemma mget_toJS: "mget (map (\<lambda>(k, v). (k, toJS v)) m) k = toJS (mget m k)"
  by (induction m) (auto simp: mget_def)

lemma map_indexed_total:
  assumes "\<And>x j. x \<in> set xs \<Longrightarrow> f x j \<noteq> None"
  shows "map_indexed f i xs \<noteq> None"
  using assms
proof (induction xs arbitrary: i)
  case Nil
  show ?case by simp
next
  case (Cons x xs)
  from Cons.prems [of x "JNum (int i)"] obtain y where y: "f x (JNum (int i)) = Some y" by auto
  from Cons.IH [of "Suc i"] Cons.prems obtain ys where "map_indexed f (Suc i) xs = Some ys" by auto
  with y show ?case by simp
qed

lemma comment_entry_total:
  assumes "wf_comment c"
  shows "comment_entry env (toJS c) j \<noteq> None"
proof -
  from assms obtain m where c: "c = ImmMap m" by (cases c) auto
  with assms obtain u where u: "mget m ''user'' = ImmMap u"
    by (cases "mget m ''user''") auto
  show ?thesis
    by (simp add: c comment_entry_def mget_toJS u)
qed

lemma similar_item_total: "is_entity x \<Longrightarrow> similar_item x j \<noteq> None"
  by (cases x) (auto simp: similar_item_def)

lemma renderDetail_total:
  assumes pd: "wf_detail (mget (blog p) ''postDetail'')"
    and cl: "wf_comments (mget (blog p) ''commentList'')"
  shows "renderDetail env p \<noteq> None"
proof -
  from pd obtain m where m: "mget (blog p) ''postDetail'' = ImmMap m"
    by (cases "mget (blog p) ''postDetail''") auto
  with pd obtain sps where sps: "mget m ''similar_posts'' = ImmList sps"
    and sps_ok: "list_all is_entity sps"
    by (cases "mget m ''similar_posts''") auto
  from cl obtain cs where cs: "mget (blog p) ''commentList'' = ImmList cs"
    and cs_ok: "list_all wf_comment cs" and len: "length cs < 2 ^ 32"
    by (cases "mget (blog p) ''commentList''") auto
  have get: "call_get (ImmMap m) (Name ''similar_posts'') = Some (ImmList sps)"
    using sps by (simp add: call_get_def mget_def)
  have count: "to_string env (JNum (int (length cs))) = Some (show_nat (length cs))"
    using len by (simp add: to_string_def)
  have "map_indexed (comment_entry env) 0 (map toJS cs) \<noteq> None"
  proof (rule map_indexed_total)
    fix x j
    assume "x \<in> set (map toJS cs)"
    then obtain c where "c \<in> set cs" and x: "x = toJS c" by auto
    with cs_ok have "wf_comment c" by (simp add: list_all_iff)
    then show "comment_entry env x j \<noteq> None" unfolding x by (rule comment_entry_total)
  qed
  then obtain es where es: "map_indexed (comment_entry env) 0 (map toJS cs) = Some es" by auto
  have entries: "comment_entries env (JArr (map toJS cs)) \<noteq> None"
    by (simp add: comment_entries_def es)
  then obtain entries where entries: "comment_entries env (JArr (map toJS cs)) = Some entries"
    by auto
  have "map_indexed similar_item 0 sps \<noteq> None"
  proof (rule map_indexed_total)
    fix x j
    assume "x \<in> set sps"
    with sps_ok have "is_entity x" by (simp add: list_all_iff)
    then show "similar_item x j \<noteq> None" by (rule similar_item_total)
  qed
  then obtain ss where ss: "map_indexed similar_item 0 sps = Some ss" by auto
  show ?thesis
    by (simp add: renderDetail_def m cs call_toJS_def get count entries ss)
qed

lemma PostDetail_render_total:
  assumes "wf_detail (mget (blog p) ''postDetail'')"
    and "wf_comments (mget (blog p) ''commentList'')"
  shows "PostDetail_render env p \<noteq> None"
proof -
  from renderDetail_total [OF assms] obtain d where d: "renderDetail env p = Some d" by auto
  from assms(1) have "is_entity (mget (blog p) ''postDetail'')"
    by (cases "mget (blog p) ''postDetail''") auto
  with breadcrumbPath_typed obtain crumbs where "PostDetail_breadcrumbPath p = Some crumbs"
    by blast
  with d show ?thesis by (simp add: PostDetail_render_def Let_def)
qed

subsection \<open>The cards of well-formed list items\<close>

lemma donor_card_typed:
  assumes "is_entity item" and "media_typed (entity_field item ''media'')"
  shows "donor_card item j = Some (spec_donor_card item)"
proof -
  from assms(1) obtain m where item: "item = ImmMap m" by (cases item) auto
  show ?thesis
  proof (cases "map_of m ''media''")
    case None
    then show ?thesis
      by (simp add: item donor_card_def spec_donor_card_def call_get_def call_getIn_def
            entity_field_def mget_def)
  next
    case (Some media)
    with assms(2) have mt: "media_typed media" by (simp add: item entity_field_def mget_def)
    show ?thesis
    proof (cases media)
      case (ImmList xs)
      show ?thesis
      proof (cases xs)
        case Nil
        with Some ImmList show ?thesis
          by (simp add: item donor_card_def spec_donor_card_def spec_first_url_def call_get_def
                call_getIn_def entity_field_def mget_def)
      next
        case (Cons x rest)
        with mt ImmList obtain mm where x: "x = ImmMap mm" by (cases x) auto
        with Some ImmList Cons show ?thesis
          by (cases "map_of mm ''url''")
             (simp_all add: item donor_card_def spec_donor_card_def spec_first_url_def
                call_get_def call_getIn_def entity_field_def mget_def)
      qed
    qed (use Some mt in \<open>simp_all add: item donor_card_def spec_donor_card_def
           spec_first_url_def call_get_def call_getIn_def entity_field_def mget_def\<close>)
  qed
qed

lemma map_indexed_donor_cards:
  assumes "\<forall>item\<in>set items. is_entity item \<and> media_typed (entity_field item ''media'')"
  shows "map_indexed donor_card i items = Some (map spec_donor_card items)"
  using assms by (induction items arbitrary: i) (simp_all add: donor_card_typed)

subsection \<open>What a well-formed state renders\<close>

lemma comment_entry_wf:
  assumes "wf_comment c"
  shows "comment_entry env (toJS c) (JNum (int i)) = Some (spec_comment_entry env i c)"
proof -
  from assms obtain m where c: "c = ImmMap m" by (cases c) auto
  with assms obtain u where u: "mget m ''user'' = ImmMap u"
    by (cases "mget m ''user''") auto
  show ?thesis
    by (simp add: c comment_entry_def spec_comment_entry_def mget_toJS u entity_field_def)
qed

lemma similar_item_wf: "is_entity s \<Longrightarrow> similar_item s j = Some (spec_similar_item s)"
  by (cases s) (auto simp: similar_item_def spec_similar_item_def)

lemma map_indexed_similar:
  "list_all is_entity sps \<Longrightarrow> map_indexed similar_item i sps = Some (map spec_similar_item sps)"
  by (induction sps arbitrary: i) (simp_all add: similar_item_wf)

lemma map_indexed_enumerate:
  assumes "\<And>x j. x \<in> set xs \<Longrightarrow> f (h x) (JNum (int j)) = Some (g j x)"
  shows "map_indexed f i (map h xs) = Some (map (\<lambda>(j, x). g j x) (enumerate i xs))"
  using assms by (induction xs arbitrary: i) simp_all

lemma renderDetail_wf:
  assumes pd: "wf_detail (mget (blog p) ''postDetail'')"
    and cl: "wf_comments (mget (blog p) ''commentList'')"
  shows "renderDetail env p =
     Some (spec_detail env (mget (blog p) ''postDetail'') (mget (blog p) ''commentList'')
             (mget (auth p) ''currentUser''))"
proof -
  from pd obtain m where m: "mget (blog p) ''postDetail'' = ImmMap m"
    by (cases "mget (blog p) ''postDetail''") auto
  with pd obtain sps where sps: "mget m ''similar_posts'' = ImmList sps"
    and sps_ok: "list_all is_entity sps"
    by (cases "mget m ''similar_posts''") auto
  from cl obtain cs where cs: "mget (blog p) ''commentList'' = ImmList cs"
    and cs_ok: "list_all wf_comment cs" and len: "length cs < 2 ^ 32"
    by (cases "mget (blog p) ''commentList''") auto
  have get: "call_get (ImmMap m) (Name ''similar_posts'') = Some (ImmList sps)"
    using sps by (simp add: call_get_def mget_def)
  have count: "to_string env (JNum (int (length cs))) = Some (show_nat (length cs))"
    using len by (simp add: to_string_def)
  have es: "map_indexed (comment_entry env) 0 (map toJS cs) =
      Some (map (\<lambda>(i, c). spec_comment_entry env i c) (enumerate 0 cs))"
  proof (rule map_indexed_enumerate)
    fix x j
    assume "x \<in> set cs"
    with cs_ok have "wf_comment x" by (simp add: list_all_iff)
    then show "comment_entry env (toJS x) (JNum (int j)) = Some (spec_comment_entry env j x)"
      by (rule comment_entry_wf)
  qed
  have entries: "comment_entries env (JArr (map toJS cs)) =
      Some (if cs = [] then Expr (JBool False)
            else NodeArr (map (\<lambda>(i, c). spec_comment_entry env i c) (enumerate 0 cs)))"
    by (simp add: comment_entries_def es)
  have ss: "map_indexed similar_item 0 sps = Some (map spec_similar_item sps)"
    using sps_ok by (rule map_indexed_similar)
  show ?thesis
    by (simp add: renderDetail_def m cs call_toJS_def get count entries ss mget_toJS
          spec_detail_def entity_field_def sps)
qed

text \<open>A status that is none of the three constants renders no branch at all.\<close>

lemma PostDetail_render_other_status:
  assumes "mget (blog p) ''postDetailStatus'' \<notin> {API_PENDING, API_FAIL, API_SUCCESS}"
    and "PostDetail_breadcrumbPath p = Some crumbs"
  shows "PostDetail_render env p =
     Some (Element ''FrontContainerLayout''
             [(''breadcrumbPath'', AVal crumbs), (''subscribe'', AVal (JBool True))]
             [Expr (JBool False), Expr (JBool False), Expr (JBool False)])"
  using assms by (simp add: PostDetail_render_def)

section \<open>The detail view renders one branch per request status\<close>

text \<open>
  C1 (amended).  Take any store state whose detail slot is absent or holds an entity.  Under
  \<^verbatim>\<open>API_PENDING\<close> the render returns the layout with the spinner as its only child that is
  not \<^verbatim>\<open>false\<close>; under \<^verbatim>\<open>API_FAIL\<close> it returns the layout with only the static "Post not
  found" title.  Under \<^verbatim>\<open>API_SUCCESS\<close>, when the detail and the comment list are well-formed,
  it returns the layout with only the full detail content: the post's title, image and
  content, the comments section with its count and one entry per comment, the comment form
  or sign-in prompt, and the similar posts.  Whatever else it returns under \<^verbatim>\<open>API_SUCCESS\<close>
  is the layout with only the page-content block of these three sections.  For each of the
  three status values exactly one child of a returned layout is not \<^verbatim>\<open>false\<close>.
\<close>

theorem PostDetail_render_three_way:
  assumes typed: "absent (mget (blog p) ''postDetail'') \<or> is_entity (mget (blog p) ''postDetail'')"
  shows "\<exists>crumbs. PostDetail_breadcrumbPath p = Some crumbs \<and>
    (mget (blog p) ''postDetailStatus'' = API_PENDING \<longrightarrow>
       PostDetail_render env p = Some (Element ''FrontContainerLayout''
               [(''breadcrumbPath'', AVal crumbs), (''subscribe'', AVal (JBool True))]
               [Element ''Spinner'' [] [], Expr (JBool False), Expr (JBool False)])) \<and>
    (mget (blog p) ''postDetailStatus'' = API_FAIL \<longrightarrow>
       PostDetail_render env p = Some (Element ''FrontContainerLayout''
               [(''breadcrumbPath'', AVal crumbs), (''subscribe'', AVal (JBool True))]
               [Expr (JBool False),
                Element ''SectionTitle'' [] [Element ''center'' [] [Expr (JStr ''Post not found'')]],
                Expr (JBool False)])) \<and>
    (mget (blog p) ''postDetailStatus'' = API_SUCCESS
       \<and> wf_detail (mget (blog p) ''postDetail'')
       \<and> wf_comments (mget (blog p) ''commentList'') \<longrightarrow>
       PostDetail_render env p = Some (Element ''FrontContainerLayout''
               [(''breadcrumbPath'', AVal crumbs), (''subscribe'', AVal (JBool True))]
               [Expr (JBool False), Expr (JBool False),
                spec_detail env (mget (blog p) ''postDetail'') (mget (blog p) ''commentList'')
                  (mget (auth p) ''currentUser'')])) \<and>
    (mget (blog p) ''postDetailStatus'' = API_SUCCESS \<longrightarrow>
       (\<forall>out. PostDetail_render env p = Some out \<longrightarrow>
          (\<exists>main count entries similar.
             element_names main = [''Section'', ''p'', ''img'', ''div''] \<and>
             out = Element ''FrontContainerLayout''
               [(''breadcrumbPath'', AVal crumbs), (''subscribe'', AVal (JBool True))]
               [Expr (JBool False), Expr (JBool False),
                Element ''div'' [(''className'', AVal (JStr ''page-content''))]
                  [main,
                   Element ''Section'' [(''title'', AVal (JStr (''Comments ('' @ count @ '')'')))]
                     [entries, comment_gate (mget (auth p) ''currentUser'')],
                   Element ''Section'' [(''title'', AVal (JStr ''Similar Posts''))]
                     [Element ''Row'' [(''className'', AVal (JStr ''mb-5''))] [similar]]]]))) \<and>
    (mget (blog p) ''postDetailStatus'' \<in> {API_PENDING, API_FAIL, API_SUCCESS} \<longrightarrow>
       (\<forall>out. PostDetail_render env p = Some out \<longrightarrow> length (rendered_branches out) = 1))"
proof -
  from breadcrumbPath_typed [OF typed] obtain crumbs
    where crumbs: "PostDetail_breadcrumbPath p = Some crumbs" by blast
  have pending: "mget (blog p) ''postDetailStatus'' = API_PENDING \<Longrightarrow>
       PostDetail_render env p = Some (Element ''FrontContainerLayout''
               [(''breadcrumbPath'', AVal crumbs), (''subscribe'', AVal (JBool True))]
               [Element ''Spinner'' [] [], Expr (JBool False), Expr (JBool False)])"
    using status_distinct by (simp add: PostDetail_render_def crumbs)
  have failed: "mget (blog p) ''postDetailStatus'' = API_FAIL \<Longrightarrow>
       PostDetail_render env p = Some (Element ''FrontContainerLayout''
               [(''breadcrumbPath'', AVal crumbs), (''subscribe'', AVal (JBool True))]
               [Expr (JBool False),
                Element ''SectionTitle'' [] [Element ''center'' [] [Expr (JStr ''Post not found'')]],
                Expr (JBool False)])"
    using status_distinct by (simp add: PostDetail_render_def crumbs)
  have loaded: "PostDetail_render env p = Some (Element ''FrontContainerLayout''
               [(''breadcrumbPath'', AVal crumbs), (''subscribe'', AVal (JBool True))]
               [Expr (JBool False), Expr (JBool False),
                spec_detail env (mget (blog p) ''postDetail'') (mget (blog p) ''commentList'')
                  (mget (auth p) ''currentUser'')])"
    if "mget (blog p) ''postDetailStatus'' = API_SUCCESS
       \<and> wf_detail (mget (blog p) ''postDetail'')
       \<and> wf_comments (mget (blog p) ''commentList'')"
    using that status_distinct
    by (simp add: PostDetail_render_def crumbs renderDetail_wf)
  have shape: "\<exists>main count entries similar.
             element_names main = [''Section'', ''p'', ''img'', ''div''] \<and>
             out = Element ''FrontContainerLayout''
               [(''breadcrumbPath'', AVal crumbs), (''subscribe'', AVal (JBool True))]
               [Expr (JBool False), Expr (JBool False),
                Element ''div'' [(''className'', AVal (JStr ''page-content''))]
                  [main,
                   Element ''Section'' [(''title'', AVal (JStr (''Comments ('' @ count @ '')'')))]
                     [entries, comment_gate (mget (auth p) ''currentUser'')],
                   Element ''Section'' [(''title'', AVal (JStr ''Similar Posts''))]
                     [Element ''Row'' [(''className'', AVal (JStr ''mb-5''))] [similar]]]]"
    if st: "mget (blog p) ''postDetailStatus'' = API_SUCCESS"
      and out: "PostDetail_render env p = Some out" for out
  proof -
    from st out obtain crumbs' d where c': "PostDetail_breadcrumbPath p = Some crumbs'"
      and d: "renderDetail env p = Some d"
      and o: "out = Element ''FrontContainerLayout''
               [(''breadcrumbPath'', AVal crumbs'), (''subscribe'', AVal (JBool True))]
               [Expr (JBool False), Expr (JBool False), d]"
      by (rule PostDetail_render_success)
    from c' crumbs have same: "crumbs' = crumbs" by simp
    from d obtain count main entries similar where
        mn: "element_names main = [''Section'', ''p'', ''img'', ''div'']"
      and dd: "d = Element ''div'' [(''className'', AVal (JStr ''page-content''))]
           [main,
            Element ''Section'' [(''title'', AVal (JStr (''Comments ('' @ count @ '')'')))]
              [entries, comment_gate (mget (auth p) ''currentUser'')],
            Element ''Section'' [(''title'', AVal (JStr ''Similar Posts''))]
              [Element ''Row'' [(''className'', AVal (JStr ''mb-5''))] [similar]]]"
      by (rule renderDetail_shape)
    from mn show ?thesis unfolding o same dd by blast
  qed
  have one: "length (rendered_branches out) = 1"
    if st: "mget (blog p) ''postDetailStatus'' \<in> {API_PENDING, API_FAIL, API_SUCCESS}"
      and out: "PostDetail_render env p = Some out" for out
  proof -
    consider "mget (blog p) ''postDetailStatus'' = API_PENDING"
      | "mget (blog p) ''postDetailStatus'' = API_FAIL"
      | "mget (blog p) ''postDetailStatus'' = API_SUCCESS"
      using st by auto
    then show ?thesis
    proof cases
      case 1
      from pending [OF 1] out show ?thesis by (auto simp: rendered_branches_def)
    next
      case 2
      from failed [OF 2] out show ?thesis by (auto simp: rendered_branches_def)
    next
      case 3
      from shape [OF 3 out] show ?thesis by (auto simp: rendered_branches_def)
    qed
  qed
  show ?thesis
  proof (intro exI [of _ crumbs] conjI impI allI)
    show "PostDetail_breadcrumbPath p = Some crumbs" by (rule crumbs)
  qed (use pending failed loaded shape one in \<open>blast+\<close>)
qed

theorem PostDetail_render_three_way_witness:
  "absent (mget (blog (sample_props API_PENDING Undefined Undefined Undefined)) ''postDetail'')
   \<and> PostDetail_render sample_env (sample_props API_PENDING Undefined Undefined Undefined) =
       Some (Element ''FrontContainerLayout''
         [(''breadcrumbPath'',
           AVal (JArr [JObj [(''route'', JStr ''/''), (''text'', JStr ''Home'')],
                       JObj [(''route'', JStr ''/blog''), (''text'', JStr ''Posts'')],
                       JObj [(''text'', JStr '''')]])),
          (''subscribe'', AVal (JBool True))]
         [Element ''Spinner'' [] [], Expr (JBool False), Expr (JBool False)])
   \<and> is_entity (mget (blog (sample_props API_SUCCESS sample_detail (ImmList [sample_comment])
         sample_user)) ''postDetail'')
   \<and> wf_detail sample_detail \<and> wf_comments (ImmList [sample_comment])
   \<and> PostDetail_render sample_env
         (sample_props API_SUCCESS sample_detail (ImmList [sample_comment]) sample_user) =
       Some (Element ''FrontContainerLayout''
         [(''breadcrumbPath'',
           AVal (JArr [JObj [(''route'', JStr ''/''), (''text'', JStr ''Home'')],
                       JObj [(''route'', JStr ''/blog''), (''text'', JStr ''Posts'')],
                       JObj [(''text'', JStr ''Hello'')]])),
          (''subscribe'', AVal (JBool True))]
         [Expr (JBool False), Expr (JBool False),
          Element ''div'' [(''className'', AVal (JStr ''page-content''))]
            [Element ''Section'' [(''title'', AVal (JStr ''Hello''))]
               [Element ''p'' []
                  [Element ''img''
                     [(''src'', AVal (JStr ''/img/a.png'')), (''alt'', AVal (JStr ''Hello'')),
                      (''className'', AVal (JStr ''w-100''))] []],
                Element ''div''
                  [(''className'', AVal (JStr ''my-5'')),
                   (''dangerouslySetInnerHTML'', AVal (JObj [(''__html'', JStr ''<p>Hi</p>'')]))]
                  []],
             Element ''Section'' [(''title'', AVal (JStr ''Comments (1)''))]
               [NodeArr
                  [Element ''div'' [(''className'', AVal (JStr ''mb-4'')), (''key'', AVal (JNum 0))]
                     [Element ''div'' [(''className'', AVal (JStr ''mb-3''))] [Expr (JStr ''Nice'')],
                      Element ''Row'' []
                        [Element ''Col''
                           [(''xs'', AVal (JNum 6)), (''className'', AVal (JStr ''mb-2''))]
                           [Expr (JStr ''Sep 4, 2018'')],
                         Element ''Col''
                           [(''xs'', AVal (JNum 6)),
                            (''className'', AVal (JStr ''text-right mb-2''))]
                           [Expr (JStr ''Ann Lee'')]]]],
                Element ''CommentForm''
                  [(''onSubmit'', AHandler Ref_handlePostComment),
                   (''user'', AVal (ImmMap [(''full_name'', JStr ''Ann Lee'')]))] []],
             Element ''Section'' [(''title'', AVal (JStr ''Similar Posts''))]
               [Element ''Row'' [(''className'', AVal (JStr ''mb-5''))]
                  [NodeArr
                     [Element ''PostItem''
                        [(''key'', AVal Undefined),
                         (''post'', AVal (ImmMap [(''pk'', JNum 2), (''title'', JStr ''Other'')]))]
                        []]]]]])
   \<and> map_option (\<lambda>out. length (rendered_branches out))
         (PostDetail_render sample_env
            (sample_props API_SUCCESS sample_detail (ImmList [sample_comment]) sample_user)) =
       Some 1"
  using
    PostDetail_render_three_way
      [of "sample_props API_PENDING Undefined Undefined Undefined" sample_env]
    PostDetail_render_three_way
      [of "sample_props API_SUCCESS sample_detail (ImmList [sample_comment]) sample_user" sample_env]
  by (simp add: sample_defs model_defs show_nat.simps)

text \<open>
  Without the condition on the comment list the statement fails: the detail fetch can
  have succeeded with a well-formed detail while the store has no comment list, and then
  \<^verbatim>\<open>blog.get('commentList').toJS()\<close> throws and the render returns nothing.
\<close>

theorem PostDetail_render_success_without_comments:
  "mget (blog (sample_props API_SUCCESS sample_detail Undefined Undefined)) ''postDetailStatus'' =
     API_SUCCESS
   \<and> wf_detail (mget (blog (sample_props API_SUCCESS sample_detail Undefined Undefined))
        ''postDetail'')
   \<and> PostDetail_render sample_env (sample_props API_SUCCESS sample_detail Undefined Undefined) =
     None"
  by (simp add: sample_defs model_defs)

section \<open>Fetching on a change of route\<close>

text \<open>
  C2.  When the component receives new props, with route identifier \<open>A\<close> before and \<open>B\<close>
  after: if \<open>A \<noteq> B\<close> it dispatches exactly two actions, one detail fetch and one comment-list
  fetch, both with the argument \<^verbatim>\<open>{id: B}\<close>; if \<open>A = B\<close> it dispatches nothing.
\<close>

theorem componentWillReceiveProps_refetch:
  "match_params_id p = A \<Longrightarrow> match_params_id nextProps = B \<Longrightarrow>
     (A \<noteq> B \<longrightarrow> componentWillReceiveProps p nextProps =
        [Call_getPostDetail (JObj [(''id'', JStr B)]),
         Call_getPostCommentList (JObj [(''id'', JStr B)])])
     \<and> (A = B \<longrightarrow> componentWillReceiveProps p nextProps = [])"
  by (simp add: componentWillReceiveProps_def getDetail_def)

theorem componentWillReceiveProps_refetch_witness:
  "componentWillReceiveProps
       \<lparr>auth = [], blog = [], match_params_id = ''7''\<rparr>
       \<lparr>auth = [], blog = [], match_params_id = ''8''\<rparr> =
     [Call_getPostDetail (JObj [(''id'', JStr ''8'')]),
      Call_getPostCommentList (JObj [(''id'', JStr ''8'')])]
   \<and> componentWillReceiveProps
       \<lparr>auth = [], blog = [], match_params_id = ''7''\<rparr>
       \<lparr>auth = [(''currentUser'', Null)], blog = [], match_params_id = ''7''\<rparr> = []"
  using
    componentWillReceiveProps_refetch
      [of "\<lparr>auth = [], blog = [], match_params_id = ''7''\<rparr>" "''7''"
          "\<lparr>auth = [], blog = [], match_params_id = ''8''\<rparr>" "''8''"]
    componentWillReceiveProps_refetch
      [of "\<lparr>auth = [], blog = [], match_params_id = ''7''\<rparr>" "''7''"
          "\<lparr>auth = [(''currentUser'', Null)], blog = [], match_params_id = ''7''\<rparr>" "''7''"]
  by simp

section \<open>Fetching the list page on mount\<close>

text \<open>
  C3.  When the listing view mounts: if the store's \<^verbatim>\<open>donorListPageLoaded\<close> flag is
  \<^verbatim>\<open>false\<close> it dispatches exactly one action, the fetch of the list page, called without
  arguments; if the flag is \<^verbatim>\<open>true\<close> it dispatches nothing.
\<close>

theorem Donors_componentWillMount_fetch:
  "(mget (donors p) ''donorListPageLoaded'' = JBool False \<longrightarrow>
      Donors_componentWillMount p = [Call_getDonorListPage])
   \<and> (mget (donors p) ''donorListPageLoaded'' = JBool True \<longrightarrow>
      Donors_componentWillMount p = [])"
  by (simp add: Donors_componentWillMount_def)

theorem Donors_componentWillMount_fetch_witness:
  "Donors_componentWillMount
       \<lparr>donors = [(''donorListPageLoaded'', JBool False), (''donorListPage'', ImmList [])]\<rparr> =
     [Call_getDonorListPage]
   \<and> Donors_componentWillMount
       \<lparr>donors = [(''donorListPageLoaded'', JBool True), (''donorListPage'', ImmList [])]\<rparr> = []"
  using
    Donors_componentWillMount_fetch
      [of "\<lparr>donors = [(''donorListPageLoaded'', JBool False), (''donorListPage'', ImmList [])]\<rparr>"]
    Donors_componentWillMount_fetch
      [of "\<lparr>donors = [(''donorListPageLoaded'', JBool True), (''donorListPage'', ImmList [])]\<rparr>"]
  by (simp add: mget_def)

section \<open>Submitting a comment\<close>

text \<open>
  C5.  Submitting the comment form with payload \<open>P\<close> while the route identifier is \<open>ID\<close>
  dispatches exactly one action: the create-comment action, whose argument is the object
  \<^verbatim>\<open>{id: ID, data: P}\<close>.  Nothing else is dispatched.
\<close>

theorem handlePostComment_dispatch:
  "match_params_id p = ID \<Longrightarrow>
     handlePostComment p P =
       [Call_createPostComment (JObj [(''id'', JStr ID), (''data'', P)])]"
  by (simp add: handlePostComment_def)

theorem handlePostComment_dispatch_witness:
  "handlePostComment (sample_props API_SUCCESS sample_detail (ImmList []) sample_user)
       (JObj [(''content'', JStr ''Thanks'')]) =
     [Call_createPostComment
        (JObj [(''id'', JStr ''7''), (''data'', JObj [(''content'', JStr ''Thanks'')])])]"
  using
    handlePostComment_dispatch
      [of "sample_props API_SUCCESS sample_detail (ImmList []) sample_user" "''7''"
          "JObj [(''content'', JStr ''Thanks'')]"]
  by (simp add: sample_props_def)

section \<open>The render depends on four store slots and on the environment\<close>




section \<open>The breadcrumb\<close>

text \<open>
  C9.  The breadcrumb computation returns, without throwing, the three-entry path Home,
  Posts, title for every store state whose detail slot is absent or holds an entity: with
  the empty string as the text of the third entry when the detail is absent (as it is
  before a fetch succeeds), and with the entity's title when it is there.
\<close>

theorem PostDetail_breadcrumbPath_total:
  "(absent (mget (blog p) ''postDetail'') \<longrightarrow>
      PostDetail_breadcrumbPath p =
        Some (JArr [JObj [(''route'', JStr ''/''), (''text'', JStr ''Home'')],
                    JObj [(''route'', JStr ''/blog''), (''text'', JStr ''Posts'')],
                    JObj [(''text'', JStr '''')]]))
   \<and> (\<forall>m. mget (blog p) ''postDetail'' = ImmMap m \<longrightarrow>
      PostDetail_breadcrumbPath p =
        Some (JArr [JObj [(''route'', JStr ''/''), (''text'', JStr ''Home'')],
                    JObj [(''route'', JStr ''/blog''), (''text'', JStr ''Posts'')],
                    JObj [(''text'', mget m ''title'')]]))"
  by (auto simp: PostDetail_breadcrumbPath_def call_get_def mget_def
           dest: absent_not_truthy split: option.splits)

theorem PostDetail_breadcrumbPath_total_witness:
  "PostDetail_breadcrumbPath (sample_props API_PENDING Undefined Undefined Undefined) =
     Some (JArr [JObj [(''route'', JStr ''/''), (''text'', JStr ''Home'')],
                 JObj [(''route'', JStr ''/blog''), (''text'', JStr ''Posts'')],
                 JObj [(''text'', JStr '''')]])
   \<and> PostDetail_breadcrumbPath (sample_props API_SUCCESS sample_detail (ImmList []) Undefined) =
     Some (JArr [JObj [(''route'', JStr ''/''), (''text'', JStr ''Home'')],
                 JObj [(''route'', JStr ''/blog''), (''text'', JStr ''Posts'')],
                 JObj [(''text'', JStr ''Hello'')]])"
  using
    PostDetail_breadcrumbPath_total [of "sample_props API_PENDING Undefined Undefined Undefined"]
    PostDetail_breadcrumbPath_total
      [of "sample_props API_SUCCESS sample_detail (ImmList []) Undefined"]
  by (simp add: sample_props_def sample_detail_def mget_def)

section \<open>The detail content needs its three collections\<close>

text \<open>
  C10.  \<^verbatim>\<open>renderDetail\<close> reads the detail entity, the entity's \<^verbatim>\<open>similar_posts\<close> and the
  comment list without a default: when any of the three is absent it throws, and so does
  the render of the view under \<^verbatim>\<open>API_SUCCESS\<close>.  So a render that returns under
  \<^verbatim>\<open>API_SUCCESS\<close> had all three.
\<close>

theorem renderDetail_requires_all_three:
  assumes "absent (mget (blog p) ''postDetail'')
     \<or> absent (mget (blog p) ''commentList'')
     \<or> (\<exists>sp. call_get (mget (blog p) ''postDetail'') (Name ''similar_posts'') = Some sp \<and> absent sp)"
  shows "renderDetail env p = None
     \<and> (mget (blog p) ''postDetailStatus'' = API_SUCCESS \<longrightarrow> PostDetail_render env p = None)"
proof -
  have "renderDetail env p = None"
  proof (rule ccontr)
    assume "renderDetail env p \<noteq> None"
    then obtain d where d: "renderDetail env p = Some d" by auto
    then obtain comments sp where
        c: "call_toJS (mget (blog p) ''commentList'') = Some comments"
      and s: "call_get (mget (blog p) ''postDetail'') (Name ''similar_posts'') = Some sp"
      and m: "call_map sp similar_item \<noteq> None"
      by (auto simp: renderDetail_def Let_def bind_eq_Some_conv)
    from c have "\<not> absent (mget (blog p) ''commentList'')"
      by (cases "mget (blog p) ''commentList''") (auto simp: call_toJS_def)
    moreover from s have "\<not> absent (mget (blog p) ''postDetail'')"
      by (cases "mget (blog p) ''postDetail''") (auto simp: call_get_def)
    moreover from m have "\<not> absent sp"
      using call_map_absent [of sp similar_item] by auto
    ultimately show False using assms s by auto
  qed
  then show ?thesis
    by (cases "PostDetail_breadcrumbPath p") (simp_all add: PostDetail_render_def)
qed

theorem renderDetail_requires_all_three_witness:
  "PostDetail_render sample_env
       (sample_props API_SUCCESS Undefined (ImmList [sample_comment]) sample_user) = None
   \<and> PostDetail_render sample_env
       (sample_props API_SUCCESS sample_detail Undefined sample_user) = None
   \<and> PostDetail_render sample_env
       (sample_props API_SUCCESS (ImmMap [(''title'', JStr ''Hello'')]) (ImmList [sample_comment])
          sample_user) = None"
  using
    renderDetail_requires_all_three
      [of "sample_props API_SUCCESS Undefined (ImmList [sample_comment]) sample_user" sample_env]
    renderDetail_requires_all_three
      [of "sample_props API_SUCCESS sample_detail Undefined sample_user" sample_env]
    renderDetail_requires_all_three
      [of "sample_props API_SUCCESS (ImmMap [(''title'', JStr ''Hello'')])
             (ImmList [sample_comment]) sample_user" sample_env]
  by (simp add: sample_props_def mget_def call_get_def)

section \<open>The comment form is shown to a signed-in user only\<close>



section \<open>An empty comment list\<close>

text \<open>
  C6.  Under \<^verbatim>\<open>API_SUCCESS\<close> with an empty comment list a store state with a well-formed
  detail renders, and whatever the render returns has as its second section the one titled
  "Comments (0)", whose children are \<^verbatim>\<open>false\<close> (no comment entry) and the form or sign-in
  prompt.
\<close>

theorem renderDetail_no_comments:
  assumes st: "mget (blog p) ''postDetailStatus'' = API_SUCCESS"
    and empty: "mget (blog p) ''commentList'' = ImmList []"
  shows "(wf_detail (mget (blog p) ''postDetail'') \<longrightarrow> PostDetail_render env p \<noteq> None)
     \<and> (\<forall>out. PostDetail_render env p = Some out \<longrightarrow>
          (\<exists>crumbs main similar.
             out = Element ''FrontContainerLayout''
               [(''breadcrumbPath'', AVal crumbs), (''subscribe'', AVal (JBool True))]
               [Expr (JBool False), Expr (JBool False),
                Element ''div'' [(''className'', AVal (JStr ''page-content''))]
                  [main,
                   Element ''Section'' [(''title'', AVal (JStr ''Comments (0)''))]
                     [Expr (JBool False), comment_gate (mget (auth p) ''currentUser'')],
                   Element ''Section'' [(''title'', AVal (JStr ''Similar Posts''))]
                     [Element ''Row'' [(''className'', AVal (JStr ''mb-5''))] [similar]]]]))"
proof (intro conjI allI impI)
  assume "wf_detail (mget (blog p) ''postDetail'')"
  then show "PostDetail_render env p \<noteq> None"
    by (rule PostDetail_render_total) (simp add: empty)
next
  fix out
  assume out: "PostDetail_render env p = Some out"
  from st out obtain crumbs d where d: "renderDetail env p = Some d"
    and o: "out = Element ''FrontContainerLayout''
             [(''breadcrumbPath'', AVal crumbs), (''subscribe'', AVal (JBool True))]
             [Expr (JBool False), Expr (JBool False), d]"
    by (rule PostDetail_render_success)
  from d obtain comments n count main entries similar where
      c: "call_toJS (mget (blog p) ''commentList'') = Some comments"
    and n: "(if truthy comments then prop_read comments ''length'' else Some (JNum 0)) = Some n"
    and t: "to_string env n = Some count"
    and e: "comment_entries env comments = Some entries"
    and shape: "d = Element ''div'' [(''className'', AVal (JStr ''page-content''))]
         [main,
          Element ''Section'' [(''title'', AVal (JStr (''Comments ('' @ count @ '')'')))]
            [entries, comment_gate (mget (auth p) ''currentUser'')],
          Element ''Section'' [(''title'', AVal (JStr ''Similar Posts''))]
            [Element ''Row'' [(''className'', AVal (JStr ''mb-5''))] [similar]]]"
    by (rule renderDetail_shape)
  from c empty have comments: "comments = JArr []" by (simp add: call_toJS_def)
  from n comments have "n = JNum 0" by simp
  with t have count: "count = ''0''" by (simp add: to_string_zero)
  from e comments have entries: "entries = Expr (JBool False)"
    by (simp add: comment_entries_def)
  from o shape count entries
  show "\<exists>crumbs main similar.
             out = Element ''FrontContainerLayout''
               [(''breadcrumbPath'', AVal crumbs), (''subscribe'', AVal (JBool True))]
               [Expr (JBool False), Expr (JBool False),
                Element ''div'' [(''className'', AVal (JStr ''page-content''))]
                  [main,
                   Element ''Section'' [(''title'', AVal (JStr ''Comments (0)''))]
                     [Expr (JBool False), comment_gate (mget (auth p) ''currentUser'')],
                   Element ''Section'' [(''title'', AVal (JStr ''Similar Posts''))]
                     [Element ''Row'' [(''className'', AVal (JStr ''mb-5''))] [similar]]]]"
    by simp
qed

theorem renderDetail_no_comments_witness:
  "PostDetail_render sample_env (sample_props API_SUCCESS sample_detail (ImmList []) Undefined) =
     Some (Element ''FrontContainerLayout''
       [(''breadcrumbPath'',
         AVal (JArr [JObj [(''route'', JStr ''/''), (''text'', JStr ''Home'')],
                     JObj [(''route'', JStr ''/blog''), (''text'', JStr ''Posts'')],
                     JObj [(''text'', JStr ''Hello'')]])),
        (''subscribe'', AVal (JBool True))]
       [Expr (JBool False), Expr (JBool False),
        Element ''div'' [(''className'', AVal (JStr ''page-content''))]
          [Element ''Section'' [(''title'', AVal (JStr ''Hello''))]
             [Element ''p'' []
                [Element ''img''
                   [(''src'', AVal (JStr ''/img/a.png'')), (''alt'', AVal (JStr ''Hello'')),
                    (''className'', AVal (JStr ''w-100''))] []],
              Element ''div''
                [(''className'', AVal (JStr ''my-5'')),
                 (''dangerouslySetInnerHTML'', AVal (JObj [(''__html'', JStr ''<p>Hi</p>'')]))] []],
           Element ''Section'' [(''title'', AVal (JStr ''Comments (0)''))]
             [Expr (JBool False), comment_gate Undefined],
           Element ''Section'' [(''title'', AVal (JStr ''Similar Posts''))]
             [Element ''Row'' [(''className'', AVal (JStr ''mb-5''))]
                [NodeArr
                   [Element ''PostItem''
                      [(''key'', AVal Undefined),
                       (''post'', AVal (ImmMap [(''pk'', JNum 2), (''title'', JStr ''Other'')]))]
                      []]]]]])"
  using
    renderDetail_no_comments
      [of "sample_props API_SUCCESS sample_detail (ImmList []) Undefined" sample_env]
  by (simp add: sample_defs model_defs show_nat.simps)

section \<open>A list item without media\<close>

text \<open>
  C7.  When the list page is a List of entities whose media are absent or a List of
  entities, the listing view renders (it does not throw) one card per item, in store
  order, each the card of the specification: the item's id, title and description as
  stored, and as image the empty string when the item has no media.
\<close>

theorem Donors_render_missing_media:
  assumes "mget (donors p) ''donorListPage'' = ImmList items"
    and "\<forall>item\<in>set items. is_entity item \<and> media_typed (entity_field item ''media'')"
  shows "Donors_render p =
       Some (Element ''FrontContainerLayout''
               [(''breadcrumbPath'', AVal Donors_breadcrumbPath),
                (''title'', AVal (JStr ''Donors'')), (''subscribe'', AVal (JBool True))]
               [Element ''Row'' [] [NodeArr (map spec_donor_card items)]])
     \<and> (\<forall>item\<in>set items. absent (entity_field item ''media'') \<longrightarrow>
          spec_donor_card item =
            Element ''DonorCard''
              [(''key'', AVal (entity_field item ''pk'')), (''id'', AVal (entity_field item ''pk'')),
               (''image'', AVal (JStr '''')),
               (''title'', AVal (entity_field item ''title'')),
               (''description'', AVal (entity_field item ''description''))] [])"
  using assms by (simp add: Donors_render_def map_indexed_donor_cards spec_donor_card_def)

theorem Donors_render_missing_media_witness:
  "Donors_render sample_donors =
     Some (Element ''FrontContainerLayout''
       [(''breadcrumbPath'',
         AVal (JArr [JObj [(''route'', JStr ''/''), (''text'', JStr ''Home'')],
                     JObj [(''text'', JStr ''Donors'')]])),
        (''title'', AVal (JStr ''Donors'')), (''subscribe'', AVal (JBool True))]
       [Element ''Row'' []
          [NodeArr
             [Element ''DonorCard''
                [(''key'', AVal (JNum 1)), (''id'', AVal (JNum 1)), (''image'', AVal (JStr '''')),
                 (''title'', AVal (JStr ''Ann'')), (''description'', AVal (JStr ''First''))] [],
              Element ''DonorCard''
                [(''key'', AVal (JNum 2)), (''id'', AVal (JNum 2)),
                 (''image'', AVal (JStr ''/m/2.png'')),
                 (''title'', AVal (JStr ''Bob'')), (''description'', AVal (JStr ''Second''))] []]]])"
  using
    Donors_render_missing_media
      [of sample_donors
          "[ImmMap [(''pk'', JNum 1), (''title'', JStr ''Ann''), (''description'', JStr ''First'')],
            ImmMap [(''pk'', JNum 2), (''title'', JStr ''Bob''), (''description'', JStr ''Second''),
                    (''media'', ImmList [ImmMap [(''url'', JStr ''/m/2.png'')]])]]"]
  by (simp add: sample_donors_def model_defs)

end
